theory Spec2Isabelle
  imports Main "HOL-Library.Multiset" "HOL-Library.Char_ord" "HOL-Library.List_Lexorder"
begin

section \<open>Values, tickets and the store\<close>

text \<open>
  The program is Python: a ticket is a dict from field names to values, and the ticket
  lists hold references to those dicts. The values that occur in the program are text and
  integers, so a value is one of the two. A Python \<open>bool\<close> is an \<open>int\<close> (0 or 1)
  in every comparison made below; floats and other objects are not part of the model.
  Text is a list of characters, each standing for a code point below 256; text with
  other code points is not part of the model. Case mapping is modelled on the ASCII
  letters.
\<close>

datatype pyval = VStr string | VInt int

text \<open>The exceptions the operations can raise, with their messages where the source gives one.\<close>

datatype py_error =
    ValueError string
  | IndexError string
  | KeyError string
  | TypeError
  | AttributeError

type_synonym ticket = "string \<rightharpoonup> pyval"

text \<open>
  Ticket dicts live in a store and are named by their address: two list positions that
  hold the same address hold the same dict, and an update through one is seen through the
  other. A list object is passed as its contents (a list of addresses); an operation
  returns the contents its list argument has afterwards together with what the call
  returns or raises.
\<close>

type_synonym addr = nat
type_synonym heap = "addr \<Rightarrow> ticket"

subsection \<open>Python primitives\<close>

text \<open>\<open>d[k]\<close> on a dict raises KeyError when the key is absent.\<close>

definition getitem :: "ticket \<Rightarrow> string \<Rightarrow> py_error + pyval" where
  "getitem d k = (case d k of None \<Rightarrow> Inl (KeyError k) | Some v \<Rightarrow> Inr v)"

text \<open>\<open>sep.join(xs)\<close>.\<close>

fun str_join :: "string \<Rightarrow> string list \<Rightarrow> string" where
  "str_join sep [] = []"
| "str_join sep [x] = x"
| "str_join sep (x # y # ys) = x @ sep @ str_join sep (y # ys)"

text \<open>\<open>v in xs\<close> for a list of string literals: equality with one of them.\<close>

definition py_in :: "pyval \<Rightarrow> string list \<Rightarrow> bool" where
  "py_in v xs = (v \<in> set (map VStr xs))"

text \<open>
  How a list resolves an index: a position from 0, or from the end when negative;
  \<open>None\<close> when it names no element.
\<close>

definition py_index :: "nat \<Rightarrow> int \<Rightarrow> nat option" where
  "py_index len i =
     (if 0 \<le> i \<and> i < int len then Some (nat i)
      else if i < 0 \<and> - int len \<le> i then Some (nat (int len + i))
      else None)"

text \<open>\<open>xs.pop(i)\<close>: the list afterwards and the element removed, or an IndexError.\<close>

definition list_pop :: "'a list \<Rightarrow> int \<Rightarrow> 'a list \<times> (py_error + 'a)" where
  "list_pop xs i =
     (case py_index (length xs) i of
        None \<Rightarrow> (xs, Inl (IndexError ''pop index out of range''))
      | Some j \<Rightarrow> (take j xs @ drop (Suc j) xs, Inr (xs ! j)))"

text \<open>\<open>xs[i]\<close> on a list.\<close>

definition list_get :: "'a list \<Rightarrow> int \<Rightarrow> py_error + 'a" where
  "list_get xs i =
     (case py_index (length xs) i of
        None \<Rightarrow> Inl (IndexError ''list index out of range'')
      | Some j \<Rightarrow> Inr (xs ! j))"

text \<open>
  Comparison \<open>a < b\<close> as the sort uses it: numeric on integers, lexicographic by
  character code on text, and a TypeError between an integer and text.
\<close>

fun str_lt :: "string \<Rightarrow> string \<Rightarrow> bool" where
  "str_lt [] [] = False"
| "str_lt [] (y # ys) = True"
| "str_lt (x # xs) [] = False"
| "str_lt (x # xs) (y # ys) =
     (if x = y then str_lt xs ys else (of_char x :: nat) < of_char y)"

fun py_lt :: "pyval \<Rightarrow> pyval \<Rightarrow> py_error + bool" where
  "py_lt (VInt a) (VInt b) = Inr (a < b)"
| "py_lt (VStr a) (VStr b) = Inr (str_lt a b)"
| "py_lt (VInt a) (VStr b) = Inl TypeError"
| "py_lt (VStr a) (VInt b) = Inl TypeError"

text \<open>
  \<open>xs.sort(key=f)\<close> sorts in place, ascending and stable, comparing keys with \<open><\<close>
  only. The keys are computed first, in list order, and the first exception of \<open>f\<close>
  propagates; an exception of a comparison propagates too. A stable sort has one
  possible result, so the model is free in its algorithm: insertion from the left, each
  element placed after the elements already there that are not greater.
\<close>

fun key_list :: "('a \<Rightarrow> py_error + pyval) \<Rightarrow> 'a list \<Rightarrow> py_error + (pyval \<times> 'a) list" where
  "key_list f [] = Inr []"
| "key_list f (x # xs) =
     (case f x of
        Inl e \<Rightarrow> Inl e
      | Inr k \<Rightarrow> (case key_list f xs of Inl e \<Rightarrow> Inl e | Inr ks \<Rightarrow> Inr ((k, x) # ks)))"

fun insert_sorted :: "pyval \<times> 'a \<Rightarrow> (pyval \<times> 'a) list \<Rightarrow> py_error + (pyval \<times> 'a) list" where
  "insert_sorted x [] = Inr [x]"
| "insert_sorted x (y # ys) =
     (case py_lt (fst x) (fst y) of
        Inl e \<Rightarrow> Inl e
      | Inr lt \<Rightarrow>
          if lt then Inr (x # y # ys)
          else (case insert_sorted x ys of Inl e \<Rightarrow> Inl e | Inr r \<Rightarrow> Inr (y # r)))"

fun sort_from :: "(pyval \<times> 'a) list \<Rightarrow> (pyval \<times> 'a) list \<Rightarrow> py_error + (pyval \<times> 'a) list" where
  "sort_from acc [] = Inr acc"
| "sort_from acc (x # xs) =
     (case insert_sorted x acc of Inl e \<Rightarrow> Inl e | Inr acc' \<Rightarrow> sort_from acc' xs)"

definition list_sort :: "('a \<Rightarrow> py_error + pyval) \<Rightarrow> 'a list \<Rightarrow> py_error + 'a list" where
  "list_sort f xs =
     (case key_list f xs of
        Inl e \<Rightarrow> Inl e
      | Inr ks \<Rightarrow> (case sort_from [] ks of Inl e \<Rightarrow> Inl e | Inr r \<Rightarrow> Inr (map snd r)))"

text \<open>
  A list comprehension \<open>[x for x in xs if c(x)]\<close> whose condition can raise: the first
  exception ends it.
\<close>

fun comprehension :: "('a \<Rightarrow> py_error + bool) \<Rightarrow> 'a list \<Rightarrow> py_error + 'a list" where
  "comprehension c [] = Inr []"
| "comprehension c (x # xs) =
     (case c x of
        Inl e \<Rightarrow> Inl e
      | Inr b \<Rightarrow>
          (case comprehension c xs of
             Inl e \<Rightarrow> Inl e
           | Inr r \<Rightarrow> Inr (if b then x # r else r)))"

text \<open>
  \<open>int(s)\<close> on text, base 10: surrounding whitespace is dropped, one sign is allowed,
  then digits, with single underscores between digits. \<open>None\<close> stands for the
  ValueError of a text that is not a number.

  The whitespace \<open>int\<close> drops is tab, line feed, vertical tab, form feed, carriage
  return and space (9 to 13 and 32) and, of the code points from 128 to 255, the two that
  are whitespace, 133 and 160. The separators 28 to 31 are whitespace for
  \<open>str.isspace\<close> but not for \<open>int\<close>. No code point from 128 to 255 is a decimal
  digit.

  A number of more than \<open>max_str_digits\<close> digits is refused with a ValueError as
  well: 4300 is the interpreter's limit when it is not configured otherwise. The limit
  counts the digits only, not the sign, the underscores or the whitespace.
\<close>

definition is_space :: "char \<Rightarrow> bool" where
  "is_space c = ((of_char c :: nat) \<in> {9, 10, 11, 12, 13, 32, 133, 160})"

definition max_str_digits :: nat where
  "max_str_digits = 4300"

definition is_digit :: "char \<Rightarrow> bool" where
  "is_digit c = (48 \<le> (of_char c :: nat) \<and> (of_char c :: nat) \<le> 57)"

definition digit_val :: "char \<Rightarrow> nat" where
  "digit_val c = of_char c - 48"

definition strip :: "string \<Rightarrow> string" where
  "strip s = rev (dropWhile is_space (rev (dropWhile is_space s)))"

fun digits_from :: "nat \<Rightarrow> string \<Rightarrow> nat option" where
  "digits_from n [] = Some n"
| "digits_from n [c] = (if is_digit c then Some (10 * n + digit_val c) else None)"
| "digits_from n (c # d # ds) =
     (if is_digit c then digits_from (10 * n + digit_val c) (d # ds)
      else if c = CHR ''_'' \<and> is_digit d then digits_from (10 * n + digit_val d) ds
      else None)"

definition parse_nat :: "string \<Rightarrow> nat option" where
  "parse_nat s =
     (case s of
        [] \<Rightarrow> None
      | c # cs \<Rightarrow>
          if is_digit c then
            (case digits_from (digit_val c) cs of
               None \<Rightarrow> None
             | Some n \<Rightarrow>
                 if length (filter is_digit s) > max_str_digits then None else Some n)
          else None)"

definition int_of_str :: "string \<Rightarrow> int option" where
  "int_of_str s =
     (case strip s of
        [] \<Rightarrow> None
      | c # cs \<Rightarrow>
          if c = CHR ''+'' then map_option int (parse_nat cs)
          else if c = CHR ''-'' then map_option (\<lambda>n. - int n) (parse_nat cs)
          else map_option int (parse_nat (c # cs)))"

text \<open>
  \<open>int(v)\<close>: an integer is returned as it is, text is parsed. The message of the
  ValueError is cut short: both callers replace it.
\<close>

definition py_int :: "pyval \<Rightarrow> py_error + int" where
  "py_int v =
     (case v of
        VInt n \<Rightarrow> Inr n
      | VStr s \<Rightarrow>
          (case int_of_str s of
             None \<Rightarrow> Inl (ValueError ''invalid literal for int() with base 10'')
           | Some n \<Rightarrow> Inr n))"

text \<open>\<open>v.lower()\<close> and \<open>v.upper()\<close>: an integer has neither method.\<close>

definition lower_char :: "char \<Rightarrow> char" where
  "lower_char c =
     (if 65 \<le> (of_char c :: nat) \<and> (of_char c :: nat) \<le> 90
      then char_of ((of_char c :: nat) + 32) else c)"

definition upper_char :: "char \<Rightarrow> char" where
  "upper_char c =
     (if 97 \<le> (of_char c :: nat) \<and> (of_char c :: nat) \<le> 122
      then char_of ((of_char c :: nat) - 32) else c)"

definition py_lower :: "pyval \<Rightarrow> py_error + string" where
  "py_lower v = (case v of VStr s \<Rightarrow> Inr (map lower_char s) | VInt _ \<Rightarrow> Inl AttributeError)"

definition py_upper :: "pyval \<Rightarrow> py_error + string" where
  "py_upper v = (case v of VStr s \<Rightarrow> Inr (map upper_char s) | VInt _ \<Rightarrow> Inl AttributeError)"

text \<open>\<open>a in b\<close> on two texts: \<open>a\<close> occurs in \<open>b\<close> as a contiguous piece.\<close>

fun starts_with :: "string \<Rightarrow> string \<Rightarrow> bool" where
  "starts_with [] s = True"
| "starts_with (c # cs) [] = False"
| "starts_with (c # cs) (d # ds) = (c = d \<and> starts_with cs ds)"

fun str_contains :: "string \<Rightarrow> string \<Rightarrow> bool" where
  "str_contains a [] = (a = [])"
| "str_contains a (d # ds) = (starts_with a (d # ds) \<or> str_contains a ds)"

text \<open>\<open>str(v)\<close>, as an f-string renders a value: text as it is, an integer in decimal.\<close>

fun nat_digits :: "nat \<Rightarrow> string" where
  "nat_digits n =
     (if n < 10 then [char_of (48 + n)]
      else nat_digits (n div 10) @ [char_of (48 + n mod 10)])"

definition py_str :: "pyval \<Rightarrow> string" where
  "py_str v =
     (case v of
        VStr s \<Rightarrow> s
      | VInt n \<Rightarrow> if n < 0 then CHR ''-'' # nat_digits (nat (- n)) else nat_digits (nat n))"

section \<open>The operations\<close>

definition required_fields :: "string list" where
  "required_fields = [''id'', ''title'', ''type'', ''priority'', ''status'']"

definition valid_types :: "string list" where
  "valid_types = [''technical'', ''billing'', ''general'', ''account'', ''feature'']"

definition valid_statuses :: "string list" where
  "valid_statuses = [''new'', ''open'', ''resolved'', ''closed'']"

subsection \<open>add_ticket\<close>

text \<open>The loop over the required fields: the first one that is not a key of the dict.\<close>

fun first_missing :: "string list \<Rightarrow> ticket \<Rightarrow> string option" where
  "first_missing [] t = None"
| "first_missing (f # fs) t = (if t f = None then Some f else first_missing fs t)"

text \<open>
  \<open>add_ticket(tickets, ticket)\<close>: the four checks in the source's order, each raising
  before the append. The first component is the contents of \<open>tickets\<close> afterwards.
\<close>

definition add_ticket :: "heap \<Rightarrow> addr list \<Rightarrow> addr \<Rightarrow> addr list \<times> (py_error + addr list)" where
  "add_ticket h tickets ticket =
     (case first_missing required_fields (h ticket) of
        Some field \<Rightarrow>
          (tickets, Inl (ValueError (''Ticket is missing required field: '' @ field)))
      | None \<Rightarrow>
         (case getitem (h ticket) ''type'' of
            Inl e \<Rightarrow> (tickets, Inl e)
          | Inr ty \<Rightarrow>
             if \<not> py_in ty valid_types
             then (tickets, Inl (ValueError
                    (''Invalid ticket type. Must be one of: '' @ str_join '', '' valid_types)))
             else
              (case getitem (h ticket) ''priority'' of
                 Inl e \<Rightarrow> (tickets, Inl e)
               | Inr p \<Rightarrow>
                  if (case p of VInt n \<Rightarrow> n < 1 \<or> n > 4 | VStr _ \<Rightarrow> True)
                  then (tickets, Inl (ValueError ''Priority must be an integer between 1 and 4''))
                  else
                   (case getitem (h ticket) ''status'' of
                      Inl e \<Rightarrow> (tickets, Inl e)
                    | Inr st \<Rightarrow>
                       if \<not> py_in st valid_statuses
                       then (tickets, Inl (ValueError
                              (''Invalid status. Must be one of: '' @ str_join '', '' valid_statuses)))
                       else (tickets @ [ticket], Inr (tickets @ [ticket]))))))"

subsection \<open>remove_ticket\<close>

definition remove_ticket :: "addr list \<Rightarrow> int \<Rightarrow> addr list \<times> (py_error + addr)" where
  "remove_ticket tickets index =
     (if index < 0 \<or> index \<ge> int (length tickets)
      then (tickets, Inl (IndexError ''Index out of range''))
      else list_pop tickets index)"

subsection \<open>sort_tickets\<close>

definition valid_keys :: "string list" where
  "valid_keys = [''id'', ''priority'', ''status'', ''type'']"

text \<open>
  The sort runs on a copy, \<open>sorted_tickets\<close>; the first component is the contents of
  \<open>tickets\<close> itself afterwards.
\<close>

definition sort_tickets :: "heap \<Rightarrow> addr list \<Rightarrow> string \<Rightarrow> addr list \<times> (py_error + addr list)" where
  "sort_tickets h tickets key =
     (if key \<notin> set valid_keys
      then (tickets, Inl (ValueError
             (''Invalid sort key. Must be one of: '' @ str_join '', '' valid_keys)))
      else
        (let sorted_tickets = tickets
         in (tickets, list_sort (\<lambda>ticket. getitem (h ticket) key) sorted_tickets)))"

subsection \<open>filter_tickets\<close>

definition valid_filters :: "string list" where
  "valid_filters = [''type'', ''status'', ''priority'', ''keyword'']"

definition filter_tickets ::
  "heap \<Rightarrow> addr list \<Rightarrow> string \<Rightarrow> pyval \<Rightarrow> addr list \<times> (py_error + addr list)" where
  "filter_tickets h tickets filter_type value =
     (if filter_type \<notin> set valid_filters
      then (tickets, Inl (ValueError
             (''Invalid filter type. Must be one of: '' @ str_join '', '' valid_filters)))
      else if filter_type = ''keyword'' then
        (case py_lower value of
           Inl e \<Rightarrow> (tickets, Inl e)
         | Inr kw \<Rightarrow>
             (tickets,
              comprehension
                (\<lambda>ticket.
                   case getitem (h ticket) ''title'' of
                     Inl e \<Rightarrow> Inl e
                   | Inr title \<Rightarrow>
                       (case py_lower title of
                          Inl e \<Rightarrow> Inl e
                        | Inr low \<Rightarrow> Inr (str_contains kw low)))
                tickets))
      else if filter_type = ''priority'' then
        (case (case value of
                 VStr s \<Rightarrow>
                   (case py_int value of
                      Inl (ValueError m) \<Rightarrow>
                        Inl (ValueError ''Priority value must be a number between 1 and 4'')
                    | Inl e \<Rightarrow> Inl e
                    | Inr n \<Rightarrow> Inr (VInt n))
               | VInt n \<Rightarrow> Inr value) of
           Inl e \<Rightarrow> (tickets, Inl e)
         | Inr v \<Rightarrow>
             (tickets,
              comprehension
                (\<lambda>ticket.
                   case getitem (h ticket) ''priority'' of
                     Inl e \<Rightarrow> Inl e
                   | Inr p \<Rightarrow> Inr (p = v))
                tickets))
      else
        (tickets,
         comprehension
           (\<lambda>ticket.
              case getitem (h ticket) filter_type of
                Inl e \<Rightarrow> Inl e
              | Inr x \<Rightarrow> Inr (x = value))
           tickets))"

subsection \<open>combine_queues\<close>

text \<open>
  \<open>tickets1 + tickets2\<close> builds a new list; the first component is the contents of the
  two arguments afterwards.
\<close>

definition combine_queues ::
  "addr list \<Rightarrow> addr list \<Rightarrow> (addr list \<times> addr list) \<times> addr list" where
  "combine_queues tickets1 tickets2 = ((tickets1, tickets2), tickets1 @ tickets2)"

subsection \<open>get_priority_tickets\<close>

definition get_priority_tickets ::
  "heap \<Rightarrow> addr list \<Rightarrow> pyval \<Rightarrow> addr list \<times> (py_error + addr list)" where
  "get_priority_tickets h tickets priority_level =
     (if (case priority_level of VInt n \<Rightarrow> n < 1 \<or> n > 4 | VStr _ \<Rightarrow> True)
      then (tickets, Inl (ValueError ''Priority level must be between 1 and 4''))
      else
        (tickets,
         comprehension
           (\<lambda>ticket.
              case getitem (h ticket) ''priority'' of
                Inl e \<Rightarrow> Inl e
              | Inr p \<Rightarrow> Inr (p = priority_level))
           tickets))"

subsection \<open>manage_queue\<close>

definition valid_operations :: "string list" where
  "valid_operations = [''add'', ''remove'', ''clear'']"

text \<open>
  The call returns the queue for \<open>add\<close> and \<open>clear\<close> and the removed ticket for
  \<open>remove\<close>. The first component is the contents of \<open>active_queue\<close> afterwards;
  \<open>tickets\<close> is only read. \<open>index\<close> is optional: \<open>None\<close> when it is not given.
\<close>

datatype queue_result = RQueue "addr list" | RTicket addr

definition manage_queue ::
  "addr list \<Rightarrow> addr list \<Rightarrow> string \<Rightarrow> int option \<Rightarrow> addr list \<times> (py_error + queue_result)" where
  "manage_queue tickets active_queue operation index =
     (if operation \<notin> set valid_operations
      then (active_queue, Inl (ValueError
             (''Invalid operation. Must be one of: '' @ str_join '', '' valid_operations)))
      else if operation = ''add'' then
        (case index of
           None \<Rightarrow> (active_queue, Inl (ValueError ''Index is required for add operation''))
         | Some i \<Rightarrow>
             if i < 0 \<or> i \<ge> int (length tickets)
             then (active_queue, Inl (IndexError ''Ticket index out of range''))
             else if length active_queue \<ge> 5
             then (active_queue,
                   Inl (ValueError ''Active queue is at maximum capacity (5 tickets)''))
             else
               (case list_get tickets i of
                  Inl e \<Rightarrow> (active_queue, Inl e)
                | Inr t \<Rightarrow> (active_queue @ [t], Inr (RQueue (active_queue @ [t])))))
      else if operation = ''remove'' then
        (case index of
           None \<Rightarrow> (active_queue, Inl (ValueError ''Index is required for remove operation''))
         | Some i \<Rightarrow>
             if i < 0 \<or> i \<ge> int (length active_queue)
             then (active_queue, Inl (IndexError ''Queue index out of range''))
             else
               (case list_pop active_queue i of
                  (q, Inl e) \<Rightarrow> (q, Inl e)
                | (q, Inr t) \<Rightarrow> (q, Inr (RTicket t))))
      else if operation = ''clear'' then ([], Inr (RQueue []))
      else (active_queue, Inr (RQueue active_queue)))"

subsection \<open>update_ticket\<close>

definition valid_fields :: "string list" where
  "valid_fields = [''status'', ''priority'', ''type'']"

text \<open>
  The ticket dict is changed in place: the first component is the store afterwards. The
  list \<open>tickets\<close> is only read, and the call returns the ticket (its address).
  For \<open>priority\<close>, the body of the \<open>try\<close> raises a ValueError either from \<open>int\<close>
  or, with no message, for a number out of range; the handler replaces either by one
  message.
\<close>

definition update_ticket ::
  "heap \<Rightarrow> addr list \<Rightarrow> int \<Rightarrow> string \<Rightarrow> pyval \<Rightarrow> heap \<times> (py_error + addr)" where
  "update_ticket h tickets index field value =
     (if index < 0 \<or> index \<ge> int (length tickets)
      then (h, Inl (IndexError ''Ticket index out of range''))
      else if field \<notin> set valid_fields
      then (h, Inl (ValueError (''Invalid field. Must be one of: '' @ str_join '', '' valid_fields)))
      else
        (case list_get tickets index of
           Inl e \<Rightarrow> (h, Inl e)
         | Inr ticket \<Rightarrow>
             if field = ''status'' then
               (if \<not> py_in value valid_statuses
                then (h, Inl (ValueError
                       (''Invalid status. Must be one of: '' @ str_join '', '' valid_statuses)))
                else (h(ticket := (h ticket)(''status'' \<mapsto> value)), Inr ticket))
             else if field = ''priority'' then
               (case (case py_int value of
                        Inl e \<Rightarrow> Inl e
                      | Inr priority \<Rightarrow>
                          if priority < 1 \<or> priority > 4 then Inl (ValueError [])
                          else Inr priority) of
                  Inl (ValueError m) \<Rightarrow>
                    (h, Inl (ValueError ''Priority must be an integer between 1 and 4''))
                | Inl e \<Rightarrow> (h, Inl e)
                | Inr priority \<Rightarrow>
                    (h(ticket := (h ticket)(''priority'' \<mapsto> VInt priority)), Inr ticket))
             else if field = ''type'' then
               (if \<not> py_in value valid_types
                then (h, Inl (ValueError
                       (''Invalid type. Must be one of: '' @ str_join '', '' valid_types)))
                else (h(ticket := (h ticket)(''type'' \<mapsto> value)), Inr ticket))
             else (h, Inr ticket)))"

subsection \<open>get_formatted_ticket\<close>

definition priority_indicators :: "string list" where
  "priority_indicators = [''CRITICAL'', ''HIGH'', ''MEDIUM'', ''LOW'']"

text \<open>
  The ticket is only read, so it is passed as the dict itself. \<open>ticket["priority"] - 1\<close>
  is a TypeError on text.
\<close>

definition get_formatted_ticket :: "ticket \<Rightarrow> py_error + string" where
  "get_formatted_ticket ticket =
     (case getitem ticket ''priority'' of
        Inl e \<Rightarrow> Inl e
      | Inr (VStr s) \<Rightarrow> Inl TypeError
      | Inr (VInt n) \<Rightarrow>
     (case list_get priority_indicators (n - 1) of
        Inl e \<Rightarrow> Inl e
      | Inr priority_text \<Rightarrow>
     (case getitem ticket ''status'' of
        Inl e \<Rightarrow> Inl e
      | Inr st \<Rightarrow>
     (case py_upper st of
        Inl e \<Rightarrow> Inl e
      | Inr status_text \<Rightarrow>
     (case getitem ticket ''id'' of
        Inl e \<Rightarrow> Inl e
      | Inr i \<Rightarrow>
     (case getitem ticket ''title'' of
        Inl e \<Rightarrow> Inl e
      | Inr title \<Rightarrow>
     (case getitem ticket ''type'' of
        Inl e \<Rightarrow> Inl e
      | Inr ty \<Rightarrow>
          Inr (py_str i @ '' | '' @ py_str title @ '' | '' @ py_str ty
               @ '' | Priority: '' @ priority_text @ '' ('' @ py_str (VInt n)
               @ '') | Status: '' @ status_text))))))))"

subsection \<open>initialize_data\<close>

text \<open>
  The seven dict literals are created at the addresses 0 to 6; the call returns the two
  lists that hold them and an empty queue. Every other address holds an empty dict.
\<close>

definition seed_heap :: heap where
  "seed_heap = (\<lambda>_. Map.empty)
     (0 := [''id'' \<mapsto> VStr ''T001'', ''title'' \<mapsto> VStr ''Payment not processing'',
            ''type'' \<mapsto> VStr ''billing'', ''priority'' \<mapsto> VInt 2, ''status'' \<mapsto> VStr ''open''],
      1 := [''id'' \<mapsto> VStr ''T002'', ''title'' \<mapsto> VStr ''Reset password'',
            ''type'' \<mapsto> VStr ''account'', ''priority'' \<mapsto> VInt 3, ''status'' \<mapsto> VStr ''new''],
      2 := [''id'' \<mapsto> VStr ''T003'', ''title'' \<mapsto> VStr ''Application crashes'',
            ''type'' \<mapsto> VStr ''technical'', ''priority'' \<mapsto> VInt 1, ''status'' \<mapsto> VStr ''open''],
      3 := [''id'' \<mapsto> VStr ''T004'', ''title'' \<mapsto> VStr ''Add dark mode'',
            ''type'' \<mapsto> VStr ''feature'', ''priority'' \<mapsto> VInt 4, ''status'' \<mapsto> VStr ''new''],
      4 := [''id'' \<mapsto> VStr ''T005'', ''title'' \<mapsto> VStr ''Renewal failed'',
            ''type'' \<mapsto> VStr ''billing'', ''priority'' \<mapsto> VInt 2, ''status'' \<mapsto> VStr ''open''],
      5 := [''id'' \<mapsto> VStr ''E001'', ''title'' \<mapsto> VStr ''Security breach'',
            ''type'' \<mapsto> VStr ''technical'', ''priority'' \<mapsto> VInt 1, ''status'' \<mapsto> VStr ''new''],
      6 := [''id'' \<mapsto> VStr ''E002'', ''title'' \<mapsto> VStr ''Double-charged'',
            ''type'' \<mapsto> VStr ''billing'', ''priority'' \<mapsto> VInt 1, ''status'' \<mapsto> VStr ''new''])"

definition initialize_data :: "heap \<times> addr list \<times> addr list \<times> addr list" where
  "initialize_data = (seed_heap, [0, 1, 2, 3, 4], [5, 6], [])"

section \<open>The specification's conditions\<close>

text \<open>
  The specification's four conditions on a candidate ticket, in its words: all five
  fields are there, the type is one of the five, the priority is an integer from 1 to 4,
  the status is one of the four.
\<close>

definition spec_ticket_ok :: "ticket \<Rightarrow> bool" where
  "spec_ticket_ok t =
     ((\<forall>f \<in> {''id'', ''title'', ''type'', ''priority'', ''status''}. t f \<noteq> None)
      \<and> t ''type'' \<in> Some ` VStr ` {''technical'', ''billing'', ''general'', ''account'', ''feature''}
      \<and> t ''priority'' \<in> Some ` VInt ` {1 .. 4}
      \<and> t ''status'' \<in> Some ` VStr ` {''new'', ''open'', ''resolved'', ''closed''})"

text \<open>
  The sort without exceptions, on a key of a linearly ordered type: what \<open>sort_from\<close>
  computes when every comparison of two keys succeeds. It is used in the proofs only.
\<close>

fun insert_by :: "('a \<Rightarrow> 'k::linorder) \<Rightarrow> 'a \<Rightarrow> 'a list \<Rightarrow> 'a list" where
  "insert_by k x [] = [x]"
| "insert_by k x (y # ys) = (if k x < k y then x # y # ys else y # insert_by k x ys)"

fun sort_by_from :: "('a \<Rightarrow> 'k::linorder) \<Rightarrow> 'a list \<Rightarrow> 'a list \<Rightarrow> 'a list" where
  "sort_by_from k acc [] = acc"
| "sort_by_from k acc (x # xs) = sort_by_from k (insert_by k x acc) xs"

section \<open>Properties\<close>

lemma first_missing_None: "first_missing fs t = None \<longleftrightarrow> (\<forall>f \<in> set fs. t f \<noteq> None)"
  by (induction fs) auto

lemma first_missing_Some: "first_missing fs t = Some f \<Longrightarrow> f \<in> set fs \<and> t f = None"
  by (induction fs) (auto split: if_splits)

subsection \<open>add_ticket\<close>

lemma add_ticket_accepted:
  "spec_ticket_ok (h a) \<Longrightarrow> add_ticket h tickets a = (tickets @ [a], Inr (tickets @ [a]))"
  unfolding spec_ticket_ok_def add_ticket_def
  by (auto simp: first_missing_None required_fields_def getitem_def py_in_def
        valid_types_def valid_statuses_def)

lemma add_ticket_rejected:
  "\<not> spec_ticket_ok (h a) \<Longrightarrow>
     \<exists>msg. add_ticket h tickets a = (tickets, Inl (ValueError msg))"
  unfolding spec_ticket_ok_def add_ticket_def
  by (auto simp: first_missing_None required_fields_def getitem_def py_in_def
        valid_types_def valid_statuses_def image_iff
      split: option.splits pyval.splits)

text \<open>
  C1. \<open>add_ticket\<close> raises a ValueError (the specification's ValidationError) exactly
  when the candidate ticket misses one of the five fields, or its type is not one of the
  five, or its priority is not an integer from 1 to 4, or its status is not one of the
  four. A ticket that meets the four conditions is appended at the end of \<open>tickets\<close>,
  the elements already there staying as they are, and the call returns the list; whenever
  the call raises, \<open>tickets\<close> is as it was.
\<close>

theorem add_ticket_validation:
  "((\<exists>msg. snd (add_ticket h tickets a) = Inl (ValueError msg)) \<longleftrightarrow> \<not> spec_ticket_ok (h a))
   \<and> (spec_ticket_ok (h a) \<longrightarrow> add_ticket h tickets a = (tickets @ [a], Inr (tickets @ [a])))
   \<and> (\<forall>e. snd (add_ticket h tickets a) = Inl e \<longrightarrow> fst (add_ticket h tickets a) = tickets)"
proof (cases "spec_ticket_ok (h a)")
  case True
  then show ?thesis using add_ticket_accepted [of h a tickets] by simp
next
  case False
  then show ?thesis using add_ticket_rejected [of h a tickets] by auto
qed

lemma seed_escalated_ok: "spec_ticket_ok (seed_heap 5)"
  by (simp add: spec_ticket_ok_def seed_heap_def)

lemma empty_dict_not_ok: "\<not> spec_ticket_ok (seed_heap 9)"
  by (simp add: spec_ticket_ok_def seed_heap_def)

theorem add_ticket_validation_witness:
  "add_ticket seed_heap [0, 1] 5 = ([0, 1, 5], Inr [0, 1, 5])
   \<and> (\<exists>msg. snd (add_ticket seed_heap [0, 1] 9) = Inl (ValueError msg))
   \<and> fst (add_ticket seed_heap [0, 1] 9) = [0, 1]"
  using add_ticket_validation [of seed_heap "[0, 1]" 5]
    add_ticket_validation [of seed_heap "[0, 1]" 9]
    seed_escalated_ok empty_dict_not_ok
  by auto

subsection \<open>remove_ticket\<close>

lemma py_index_in_range: "0 \<le> i \<Longrightarrow> i < int n \<Longrightarrow> py_index n i = Some (nat i)"
  by (simp add: py_index_def)

lemma remove_ticket_out_of_range:
  "i < 0 \<or> i \<ge> int (length tickets) \<Longrightarrow>
     remove_ticket tickets i = (tickets, Inl (IndexError ''Index out of range''))"
  by (auto simp: remove_ticket_def)

lemma remove_ticket_in_range:
  "0 \<le> i \<Longrightarrow> i < int (length tickets) \<Longrightarrow>
     remove_ticket tickets i =
       (take (nat i) tickets @ drop (Suc (nat i)) tickets, Inr (tickets ! nat i))"
  by (simp add: remove_ticket_def list_pop_def py_index_in_range)

lemma nth_remove_before:
  "j < k \<Longrightarrow> k < length xs \<Longrightarrow> (take k xs @ drop (Suc k) xs) ! j = xs ! j"
  by (simp add: nth_append)

lemma nth_remove_after:
  "k \<le> j \<Longrightarrow> Suc j < length xs \<Longrightarrow> (take k xs @ drop (Suc k) xs) ! j = xs ! Suc j"
  by (simp add: nth_append min_def)

text \<open>
  C6. \<open>remove_ticket\<close> raises an IndexError exactly when the index is negative or not
  below the length of the list. For an index in range it returns the element that was at
  that position, the list is one shorter, the elements before the position are where
  they were, and each element after it is one position lower.
\<close>

theorem remove_ticket_spec:
  "((\<exists>msg. snd (remove_ticket tickets i) = Inl (IndexError msg))
      \<longleftrightarrow> (i < 0 \<or> i \<ge> int (length tickets)))
   \<and> (0 \<le> i \<and> i < int (length tickets) \<longrightarrow>
        snd (remove_ticket tickets i) = Inr (tickets ! nat i)
        \<and> Suc (length (fst (remove_ticket tickets i))) = length tickets
        \<and> (\<forall>j. j < nat i \<longrightarrow> fst (remove_ticket tickets i) ! j = tickets ! j)
        \<and> (\<forall>j. nat i \<le> j \<and> Suc j < length tickets \<longrightarrow>
              fst (remove_ticket tickets i) ! j = tickets ! Suc j))"
proof (cases "0 \<le> i \<and> i < int (length tickets)")
  case True
  then have k: "nat i < length tickets" by linarith
  from True have eq: "remove_ticket tickets i =
      (take (nat i) tickets @ drop (Suc (nat i)) tickets, Inr (tickets ! nat i))"
    by (simp add: remove_ticket_in_range)
  have len: "Suc (length (take (nat i) tickets @ drop (Suc (nat i)) tickets)) = length tickets"
    using k by simp
  show ?thesis using True k len
    by (simp add: eq nth_remove_before nth_remove_after del: length_append)
next
  case False
  then have "i < 0 \<or> i \<ge> int (length tickets)" by linarith
  then show ?thesis using remove_ticket_out_of_range [of i tickets] by auto
qed

theorem remove_ticket_spec_witness:
  "snd (remove_ticket [10, 11, 12, 13] 1) = Inr 11
   \<and> fst (remove_ticket [10, 11, 12, 13] 1) = [10, 12, 13]
   \<and> fst (remove_ticket [10, 11, 12, 13] 1) ! 0 = 10
   \<and> fst (remove_ticket [10, 11, 12, 13] 1) ! 2 = [10, 11, 12, 13] ! 3
   \<and> (\<exists>msg. snd (remove_ticket [10, 11, 12, 13] 4) = Inl (IndexError msg))
   \<and> (\<exists>msg. snd (remove_ticket [10, 11, 12, 13] (- 1)) = Inl (IndexError msg))"
  using remove_ticket_spec [of "[10, 11, 12, 13]" 1] remove_ticket_spec [of "[10, 11, 12, 13]" 4]
    remove_ticket_spec [of "[10, 11, 12, 13]" "- 1"]
  by (simp add: remove_ticket_def list_pop_def py_index_def)

subsection \<open>combine_queues\<close>

text \<open>
  C8. For all lists A and B, \<open>combine_queues\<close> returns A followed by B: the result has
  the length of A plus the length of B, its first part is A in order and the rest is B
  in order, whatever the elements are (nothing is dropped and nothing is checked), and
  both arguments hold afterwards what they held before.
\<close>

theorem combine_queues_spec:
  "snd (combine_queues A B) = A @ B
   \<and> length (snd (combine_queues A B)) = length A + length B
   \<and> take (length A) (snd (combine_queues A B)) = A
   \<and> drop (length A) (snd (combine_queues A B)) = B
   \<and> fst (combine_queues A B) = (A, B)"
  by (simp add: combine_queues_def)

subsection \<open>manage_queue\<close>

lemma list_get_in_range: "0 \<le> i \<Longrightarrow> i < int (length xs) \<Longrightarrow> list_get xs i = Inr (xs ! nat i)"
  by (simp add: list_get_def py_index_in_range)

lemma list_pop_in_range:
  "0 \<le> i \<Longrightarrow> i < int (length xs) \<Longrightarrow>
     list_pop xs i = (take (nat i) xs @ drop (Suc (nat i)) xs, Inr (xs ! nat i))"
  by (simp add: list_pop_def py_index_in_range)

lemma manage_queue_add_None:
  "manage_queue tickets q ''add'' None =
     (q, Inl (ValueError ''Index is required for add operation''))"
  by (simp add: manage_queue_def valid_operations_def)

lemma manage_queue_add_range:
  "i < 0 \<or> i \<ge> int (length tickets) \<Longrightarrow>
     manage_queue tickets q ''add'' (Some i) = (q, Inl (IndexError ''Ticket index out of range''))"
  by (auto simp: manage_queue_def valid_operations_def)

lemma manage_queue_add_full:
  "0 \<le> i \<Longrightarrow> i < int (length tickets) \<Longrightarrow> length q \<ge> 5 \<Longrightarrow>
     manage_queue tickets q ''add'' (Some i) =
       (q, Inl (ValueError ''Active queue is at maximum capacity (5 tickets)''))"
  by (simp add: manage_queue_def valid_operations_def)

lemma manage_queue_add_ok:
  "0 \<le> i \<Longrightarrow> i < int (length tickets) \<Longrightarrow> length q < 5 \<Longrightarrow>
     manage_queue tickets q ''add'' (Some i) =
       (q @ [tickets ! nat i], Inr (RQueue (q @ [tickets ! nat i])))"
  by (simp add: manage_queue_def valid_operations_def list_get_in_range)

lemma manage_queue_clear: "manage_queue tickets q ''clear'' idx = ([], Inr (RQueue []))"
  by (simp add: manage_queue_def valid_operations_def)

lemma manage_queue_remove_None:
  "manage_queue tickets q ''remove'' None =
     (q, Inl (ValueError ''Index is required for remove operation''))"
  by (simp add: manage_queue_def valid_operations_def)

lemma manage_queue_remove_range:
  "i < 0 \<or> i \<ge> int (length q) \<Longrightarrow>
     manage_queue tickets q ''remove'' (Some i) = (q, Inl (IndexError ''Queue index out of range''))"
  by (auto simp: manage_queue_def valid_operations_def)

lemma manage_queue_remove_ok:
  "0 \<le> i \<Longrightarrow> i < int (length q) \<Longrightarrow>
     manage_queue tickets q ''remove'' (Some i) =
       (take (nat i) q @ drop (Suc (nat i)) q, Inr (RTicket (q ! nat i)))"
  by (simp add: manage_queue_def valid_operations_def list_pop_in_range)

lemma manage_queue_invalid:
  "op \<notin> {''add'', ''remove'', ''clear''} \<Longrightarrow>
     \<exists>msg. manage_queue tickets q op idx = (q, Inl (ValueError msg))"
  by (simp add: manage_queue_def valid_operations_def)

lemma manage_queue_length: "length (fst (manage_queue tickets q op idx)) \<le> max (length q) 5"
proof -
  consider "op = ''add''" | "op = ''remove''" | "op = ''clear''"
    | "op \<notin> {''add'', ''remove'', ''clear''}" by auto
  then show ?thesis
  proof cases
    case 1
    show ?thesis
    proof (cases idx)
      case None
      with 1 show ?thesis by (simp add: manage_queue_add_None)
    next
      case (Some i)
      consider "i < 0 \<or> i \<ge> int (length tickets)"
        | "0 \<le> i" "i < int (length tickets)" "length q \<ge> 5"
        | "0 \<le> i" "i < int (length tickets)" "length q < 5" by linarith
      then show ?thesis
        using 1 Some
        by cases (simp_all add: manage_queue_add_range manage_queue_add_full manage_queue_add_ok)
    qed
  next
    case 2
    show ?thesis
    proof (cases idx)
      case None
      with 2 show ?thesis by (simp add: manage_queue_remove_None)
    next
      case (Some i)
      consider "i < 0 \<or> i \<ge> int (length q)" | "0 \<le> i" "i < int (length q)" by linarith
      then show ?thesis
        using 2 Some
        by cases (simp_all add: manage_queue_remove_range manage_queue_remove_ok)
    qed
  next
    case 3
    then show ?thesis by (simp add: manage_queue_clear)
  next
    case 4
    then show ?thesis using manage_queue_invalid [of op tickets q idx] by auto
  qed
qed

text \<open>
  C2. \<open>manage_queue\<close> with operation \<open>add\<close>: without an index it raises a
  ValueError; with an index outside \<open>tickets\<close> an IndexError; with an index inside
  and five or more tickets in the queue the ValueError "Active queue is at maximum
  capacity (5 tickets)"; otherwise it appends \<open>tickets[index]\<close> to the queue and
  returns the queue. So a queue of at most five tickets has at most five after any call
  of \<open>manage_queue\<close>, whatever the operation and the index; \<open>clear\<close> leaves the
  queue empty, and an \<open>add\<close> with an index inside \<open>tickets\<close> then succeeds.
\<close>

theorem manage_queue_add_capacity:
  "manage_queue tickets q ''add'' None =
      (q, Inl (ValueError ''Index is required for add operation''))
   \<and> (i < 0 \<or> i \<ge> int (length tickets) \<longrightarrow>
        manage_queue tickets q ''add'' (Some i) =
          (q, Inl (IndexError ''Ticket index out of range'')))
   \<and> (0 \<le> i \<and> i < int (length tickets) \<and> length q \<ge> 5 \<longrightarrow>
        manage_queue tickets q ''add'' (Some i) =
          (q, Inl (ValueError ''Active queue is at maximum capacity (5 tickets)'')))
   \<and> (0 \<le> i \<and> i < int (length tickets) \<and> length q < 5 \<longrightarrow>
        manage_queue tickets q ''add'' (Some i) =
          (q @ [tickets ! nat i], Inr (RQueue (q @ [tickets ! nat i]))))
   \<and> (length q \<le> 5 \<longrightarrow> length (fst (manage_queue tickets q op idx)) \<le> 5)
   \<and> manage_queue tickets q ''clear'' idx = ([], Inr (RQueue []))
   \<and> (0 \<le> i \<and> i < int (length tickets) \<longrightarrow>
        manage_queue tickets (fst (manage_queue tickets q ''clear'' idx)) ''add'' (Some i) =
          ([tickets ! nat i], Inr (RQueue [tickets ! nat i])))"
  using manage_queue_length [of tickets q op idx]
  by (auto simp: manage_queue_add_None manage_queue_add_range manage_queue_add_full
      manage_queue_add_ok manage_queue_clear)

theorem manage_queue_add_capacity_witness:
  "manage_queue [0, 1, 2, 3, 4] [0, 1, 2, 3] ''add'' (Some 4) = ([0, 1, 2, 3, 4], Inr (RQueue [0, 1, 2, 3, 4]))
   \<and> manage_queue [0, 1, 2, 3, 4] [0, 1, 2, 3, 4] ''add'' (Some 4) =
        ([0, 1, 2, 3, 4], Inl (ValueError ''Active queue is at maximum capacity (5 tickets)''))
   \<and> manage_queue [0, 1, 2, 3, 4] [0, 1, 2, 3] ''add'' (Some 5) =
        ([0, 1, 2, 3], Inl (IndexError ''Ticket index out of range''))
   \<and> length (fst (manage_queue [0, 1, 2, 3, 4] [0, 1, 2, 3, 4] ''remove'' (Some 2))) \<le> 5
   \<and> manage_queue [0, 1, 2, 3, 4] (fst (manage_queue [0, 1, 2, 3, 4] [0, 1, 2, 3, 4] ''clear'' None))
        ''add'' (Some 4) = ([4], Inr (RQueue [4]))"
  using manage_queue_add_capacity [of "[0, 1, 2, 3, 4]" "[0, 1, 2, 3]" 4 "''add''" "Some 4"]
    manage_queue_add_capacity [of "[0, 1, 2, 3, 4]" "[0, 1, 2, 3, 4]" 4 "''remove''" "Some 2"]
    manage_queue_add_capacity [of "[0, 1, 2, 3, 4]" "[0, 1, 2, 3]" 5 "''add''" "Some 5"]
    manage_queue_add_capacity [of "[0, 1, 2, 3, 4]" "[0, 1, 2, 3, 4]" 4 "''clear''" "None"]
  by (simp add: manage_queue_clear)

text \<open>
  C7. \<open>manage_queue\<close> with operation \<open>remove\<close>: without an index it raises a
  ValueError; with an index outside the queue an IndexError; with an index inside it
  takes the entry at that position out of the queue, the others keeping their order, and
  returns that ticket, not the queue. \<open>add\<close> and \<open>clear\<close>, when they return,
  return the queue.
\<close>

theorem manage_queue_remove_returns_ticket:
  "manage_queue tickets q ''remove'' None =
      (q, Inl (ValueError ''Index is required for remove operation''))
   \<and> (i < 0 \<or> i \<ge> int (length q) \<longrightarrow>
        manage_queue tickets q ''remove'' (Some i) =
          (q, Inl (IndexError ''Queue index out of range'')))
   \<and> (0 \<le> i \<and> i < int (length q) \<longrightarrow>
        manage_queue tickets q ''remove'' (Some i) =
          (take (nat i) q @ drop (Suc (nat i)) q, Inr (RTicket (q ! nat i))))
   \<and> (\<forall>r. snd (manage_queue tickets q ''add'' idx) = Inr r \<longrightarrow>
          r = RQueue (fst (manage_queue tickets q ''add'' idx)))
   \<and> (\<forall>r. snd (manage_queue tickets q ''clear'' idx) = Inr r \<longrightarrow>
          r = RQueue (fst (manage_queue tickets q ''clear'' idx)))"
proof -
  have add: "\<forall>r. snd (manage_queue tickets q ''add'' idx) = Inr r \<longrightarrow>
          r = RQueue (fst (manage_queue tickets q ''add'' idx))"
  proof (cases idx)
    case None
    then show ?thesis by (simp add: manage_queue_add_None)
  next
    case (Some j)
    consider "j < 0 \<or> j \<ge> int (length tickets)"
      | "0 \<le> j" "j < int (length tickets)" "length q \<ge> 5"
      | "0 \<le> j" "j < int (length tickets)" "length q < 5" by linarith
    then show ?thesis using Some
      by cases (auto simp: manage_queue_add_range manage_queue_add_full manage_queue_add_ok)
  qed
  show ?thesis using add
    by (auto simp: manage_queue_remove_None manage_queue_remove_range manage_queue_remove_ok
        manage_queue_clear)
qed

theorem manage_queue_remove_returns_ticket_witness:
  "manage_queue [0, 1, 2, 3, 4] [3, 1, 4] ''remove'' (Some 1) = ([3, 4], Inr (RTicket 1))
   \<and> manage_queue [0, 1, 2, 3, 4] [3, 1, 4] ''remove'' (Some 3) =
        ([3, 1, 4], Inl (IndexError ''Queue index out of range''))
   \<and> manage_queue [0, 1, 2, 3, 4] [3, 1, 4] ''remove'' (Some (- 1)) =
        ([3, 1, 4], Inl (IndexError ''Queue index out of range''))
   \<and> snd (manage_queue [0, 1, 2, 3, 4] [3, 1, 4] ''add'' (Some 0)) = Inr (RQueue [3, 1, 4, 0])
   \<and> snd (manage_queue [0, 1, 2, 3, 4] [3, 1, 4] ''clear'' None) = Inr (RQueue [])"
  using manage_queue_remove_returns_ticket [of "[0, 1, 2, 3, 4]" "[3, 1, 4]" 1 "Some 0"]
    manage_queue_remove_returns_ticket [of "[0, 1, 2, 3, 4]" "[3, 1, 4]" 3 None]
    manage_queue_remove_returns_ticket [of "[0, 1, 2, 3, 4]" "[3, 1, 4]" "- 1" None]
  by (simp add: manage_queue_add_ok manage_queue_clear)

lemma comprehension_filter:
  "(\<And>x. x \<in> set xs \<Longrightarrow> c x = Inr (p x)) \<Longrightarrow> comprehension c xs = Inr (filter p xs)"
  by (induction xs) auto

subsection \<open>The seed data\<close>

text \<open>
  C9. On the data of \<open>initialize_data\<close> (five tickets T001 to T005, two escalated
  tickets, an empty queue): \<open>get_priority_tickets(tickets, 1)\<close> returns the list of
  the one ticket T003, "Application crashes"; \<open>filter_tickets(tickets, "type",
  "billing")\<close> returns T001 and T005 in that order; and after
  \<open>update_ticket(tickets, 0, "status", "resolved")\<close> the status of the first ticket
  is "resolved".
\<close>

theorem seed_end_to_end:
  "(case initialize_data of
      (h, tickets, escalated, active_queue) \<Rightarrow>
        length tickets = 5 \<and> length escalated = 2 \<and> active_queue = []
        \<and> map (\<lambda>a. h a ''id'') tickets =
            [Some (VStr ''T001''), Some (VStr ''T002''), Some (VStr ''T003''),
             Some (VStr ''T004''), Some (VStr ''T005'')]
        \<and> get_priority_tickets h tickets (VInt 1) = (tickets, Inr [tickets ! 2])
        \<and> h (tickets ! 2) ''title'' = Some (VStr ''Application crashes'')
        \<and> filter_tickets h tickets ''type'' (VStr ''billing'') =
            (tickets, Inr [tickets ! 0, tickets ! 4])
        \<and> snd (update_ticket h tickets 0 ''status'' (VStr ''resolved'')) = Inr (tickets ! 0)
        \<and> fst (update_ticket h tickets 0 ''status'' (VStr ''resolved'')) (tickets ! 0) ''status''
            = Some (VStr ''resolved''))"
  by (simp add: initialize_data_def seed_heap_def get_priority_tickets_def filter_tickets_def
      update_ticket_def getitem_def valid_filters_def valid_fields_def valid_statuses_def
      py_in_def list_get_def py_index_def)

subsection \<open>get_formatted_ticket\<close>

lemma list_get_indicators:
  "list_get priority_indicators (- 1) = Inr ''LOW''"
  by (simp add: list_get_def py_index_def priority_indicators_def)

lemma list_get_indicators_high:
  "4 \<le> k \<Longrightarrow> list_get priority_indicators k = Inl (IndexError ''list index out of range'')"
  by (simp add: list_get_def py_index_def priority_indicators_def)

lemma py_str_zero: "py_str (VInt 0) = ''0''"
  by code_simp

lemma upper_open: "map upper_char ''open'' = ''OPEN''"
  by code_simp

text \<open>
  C10. Outside the priorities 1 to 4 \<open>get_formatted_ticket\<close> does not raise a
  ValueError: for a ticket of priority 0 it returns the line with the label LOW (index
  -1 is the last of the four labels), and for a ticket of priority 5 or more the lookup
  of the label raises an IndexError.
\<close>

theorem get_formatted_ticket_outside_range:
  "(t ''priority'' = Some (VInt 0) \<and> t ''status'' = Some (VStr st) \<and> t ''id'' = Some i
      \<and> t ''title'' = Some ti \<and> t ''type'' = Some ty \<longrightarrow>
      get_formatted_ticket t =
        Inr (py_str i @ '' | '' @ py_str ti @ '' | '' @ py_str ty
             @ '' | Priority: LOW (0) | Status: '' @ map upper_char st))
   \<and> (t ''priority'' = Some (VInt n) \<and> 5 \<le> n \<longrightarrow>
        get_formatted_ticket t = Inl (IndexError ''list index out of range''))"
  by (auto simp: get_formatted_ticket_def getitem_def list_get_indicators list_get_indicators_high
      py_upper_def py_str_zero)

theorem get_formatted_ticket_outside_range_witness:
  "get_formatted_ticket ((seed_heap 2)(''priority'' \<mapsto> VInt 0)) =
     Inr ''T003 | Application crashes | technical | Priority: LOW (0) | Status: OPEN''
   \<and> get_formatted_ticket ((seed_heap 2)(''priority'' \<mapsto> VInt 5)) =
     Inl (IndexError ''list index out of range'')"
  using get_formatted_ticket_outside_range
     [of "(seed_heap 2)(''priority'' \<mapsto> VInt 0)" "''open''" "VStr ''T003''"
         "VStr ''Application crashes''" "VStr ''technical''" 5]
    get_formatted_ticket_outside_range
     [of "(seed_heap 2)(''priority'' \<mapsto> VInt 5)" "''open''" "VStr ''T003''"
         "VStr ''Application crashes''" "VStr ''technical''" 5]
    upper_open
  by (simp add: seed_heap_def py_str_def)

subsection \<open>update_ticket\<close>

lemma py_int_error: "py_int v = Inl e \<Longrightarrow> \<exists>m. e = ValueError m"
  by (auto simp: py_int_def split: pyval.splits option.splits)

lemma update_ticket_priority_ok:
  assumes "0 \<le> i" "i < int (length tickets)" "py_int v = Inr n" "1 \<le> n" "n \<le> 4"
  shows "update_ticket h tickets i ''priority'' v =
           (h(tickets ! nat i := (h (tickets ! nat i))(''priority'' \<mapsto> VInt n)),
            Inr (tickets ! nat i))"
  using assms by (simp add: update_ticket_def valid_fields_def list_get_in_range)

lemma update_ticket_priority_range:
  assumes "0 \<le> i" "i < int (length tickets)" "py_int v = Inr n" "n < 1 \<or> 4 < n"
  shows "update_ticket h tickets i ''priority'' v =
           (h, Inl (ValueError ''Priority must be an integer between 1 and 4''))"
  using assms by (auto simp: update_ticket_def valid_fields_def list_get_in_range)

lemma update_ticket_priority_coercion:
  assumes "0 \<le> i" "i < int (length tickets)" "py_int v = Inl e"
  shows "update_ticket h tickets i ''priority'' v =
           (h, Inl (ValueError ''Priority must be an integer between 1 and 4''))"
  using assms py_int_error [OF assms(3)]
  by (auto simp: update_ticket_def valid_fields_def list_get_in_range)

lemma update_ticket_priority_in_range:
  "0 \<le> i \<and> i < int (length tickets) \<longrightarrow>
     ((\<exists>msg. snd (update_ticket h tickets i ''priority'' v) = Inl (ValueError msg))
        \<longleftrightarrow> ((\<exists>e. py_int v = Inl e) \<or> (\<exists>n. py_int v = Inr n \<and> (n < 1 \<or> 4 < n))))
     \<and> (\<forall>e. snd (update_ticket h tickets i ''priority'' v) = Inl e \<longrightarrow>
            e = ValueError ''Priority must be an integer between 1 and 4''
            \<and> fst (update_ticket h tickets i ''priority'' v) = h)
     \<and> (\<forall>n. py_int v = Inr n \<and> 1 \<le> n \<and> n \<le> 4 \<longrightarrow>
            snd (update_ticket h tickets i ''priority'' v) = Inr (tickets ! nat i)
            \<and> fst (update_ticket h tickets i ''priority'' v) (tickets ! nat i) ''priority''
                = Some (VInt n)
            \<and> (\<forall>f. f \<noteq> ''priority'' \<longrightarrow>
                  fst (update_ticket h tickets i ''priority'' v) (tickets ! nat i) f
                    = h (tickets ! nat i) f)
            \<and> (\<forall>b. b \<noteq> tickets ! nat i \<longrightarrow>
                  fst (update_ticket h tickets i ''priority'' v) b = h b))"
proof (intro impI, elim conjE)
  assume i: "0 \<le> i" "i < int (length tickets)"
  let ?r = "update_ticket h tickets i ''priority'' v"
  consider (fail) e where "py_int v = Inl e"
    | (range) n where "py_int v = Inr n" "n < 1 \<or> 4 < n"
    | (ok) n where "py_int v = Inr n" "1 \<le> n" "n \<le> 4"
    by (cases "py_int v") force+
  then show "((\<exists>msg. snd ?r = Inl (ValueError msg))
        \<longleftrightarrow> ((\<exists>e. py_int v = Inl e) \<or> (\<exists>n. py_int v = Inr n \<and> (n < 1 \<or> 4 < n))))
     \<and> (\<forall>e. snd ?r = Inl e \<longrightarrow>
            e = ValueError ''Priority must be an integer between 1 and 4'' \<and> fst ?r = h)
     \<and> (\<forall>n. py_int v = Inr n \<and> 1 \<le> n \<and> n \<le> 4 \<longrightarrow>
            snd ?r = Inr (tickets ! nat i)
            \<and> fst ?r (tickets ! nat i) ''priority'' = Some (VInt n)
            \<and> (\<forall>f. f \<noteq> ''priority'' \<longrightarrow> fst ?r (tickets ! nat i) f = h (tickets ! nat i) f)
            \<and> (\<forall>b. b \<noteq> tickets ! nat i \<longrightarrow> fst ?r b = h b))"
  proof cases
    case fail
    then show ?thesis using update_ticket_priority_coercion [OF i fail, of h] by auto
  next
    case range
    then show ?thesis using update_ticket_priority_range [OF i range, of h] by auto
  next
    case ok
    then show ?thesis using update_ticket_priority_ok [OF i ok, of h] by auto
  qed
qed

lemma update_ticket_index_error:
  "i < 0 \<or> int (length tickets) \<le> i \<Longrightarrow>
     update_ticket h tickets i field v = (h, Inl (IndexError ''Ticket index out of range''))"
  by (auto simp: update_ticket_def)

text \<open>
  C5. \<open>update_ticket(tickets, index, "priority", value)\<close>, for a value that is text
  or an integer: whenever the call raises, the store is as it was, also when it is the
  index that is refused (an IndexError, raised first). For an index inside \<open>tickets\<close>
  the call raises a ValueError exactly when \<open>int(value)\<close> fails or its result is
  outside 1 to 4, in both cases with the one message "Priority must be an integer
  between 1 and 4". Otherwise it returns the ticket, whose priority is now the integer;
  the ticket's other fields and every other ticket are as they were.
\<close>

theorem update_ticket_priority:
  "(\<forall>e. snd (update_ticket h tickets i ''priority'' v) = Inl e \<longrightarrow>
       fst (update_ticket h tickets i ''priority'' v) = h)
   \<and> (i < 0 \<or> int (length tickets) \<le> i \<longrightarrow>
       update_ticket h tickets i ''priority'' v =
         (h, Inl (IndexError ''Ticket index out of range'')))
   \<and> (0 \<le> i \<and> i < int (length tickets) \<longrightarrow>
     ((\<exists>msg. snd (update_ticket h tickets i ''priority'' v) = Inl (ValueError msg))
        \<longleftrightarrow> ((\<exists>e. py_int v = Inl e) \<or> (\<exists>n. py_int v = Inr n \<and> (n < 1 \<or> 4 < n))))
     \<and> (\<forall>e. snd (update_ticket h tickets i ''priority'' v) = Inl e \<longrightarrow>
            e = ValueError ''Priority must be an integer between 1 and 4''
            \<and> fst (update_ticket h tickets i ''priority'' v) = h)
     \<and> (\<forall>n. py_int v = Inr n \<and> 1 \<le> n \<and> n \<le> 4 \<longrightarrow>
            snd (update_ticket h tickets i ''priority'' v) = Inr (tickets ! nat i)
            \<and> fst (update_ticket h tickets i ''priority'' v) (tickets ! nat i) ''priority''
                = Some (VInt n)
            \<and> (\<forall>f. f \<noteq> ''priority'' \<longrightarrow>
                  fst (update_ticket h tickets i ''priority'' v) (tickets ! nat i) f
                    = h (tickets ! nat i) f)
            \<and> (\<forall>b. b \<noteq> tickets ! nat i \<longrightarrow>
                  fst (update_ticket h tickets i ''priority'' v) b = h b)))"
proof (cases "0 \<le> i \<and> i < int (length tickets)")
  case True
  then show ?thesis using update_ticket_priority_in_range [of i tickets h v] by auto
next
  case False
  then have "i < 0 \<or> int (length tickets) \<le> i" by linarith
  then show ?thesis using update_ticket_index_error [of i tickets h "''priority''" v] by auto
qed

text \<open>
  What \<open>int\<close> makes of some texts: a separator (code point 28) is no whitespace, a
  no-break space (code point 160) is, and a number of more digits than the limit is
  refused.
\<close>

lemma py_int_examples:
  "py_int (VStr ''4'') = Inr 4"
  "py_int (VStr ''5'') = Inr 5"
  "py_int (VStr ''high'') = Inl (ValueError ''invalid literal for int() with base 10'')"
  by code_simp+

lemma py_int_separator:
  "py_int (VStr [CHR 0x1C, CHR ''4'']) = Inl (ValueError ''invalid literal for int() with base 10'')"
  "py_int (VStr [CHR 0xA0, CHR ''4'']) = Inr 4"
  "py_int (VStr [CHR 0x1C, CHR ''2'']) = Inl (ValueError ''invalid literal for int() with base 10'')"
  "py_int (VStr [CHR 0xA0, CHR ''2'']) = Inr 2"
  by code_simp+

lemma parse_nat_limit: "max_str_digits < length (filter is_digit s) \<Longrightarrow> parse_nat s = None"
  by (auto simp: parse_nat_def split: list.splits option.splits)

theorem update_ticket_priority_witness:
  "snd (update_ticket seed_heap [0, 1, 2, 3, 4] 1 ''priority'' (VStr ''4'')) = Inr 1
   \<and> fst (update_ticket seed_heap [0, 1, 2, 3, 4] 1 ''priority'' (VStr ''4'')) 1 ''priority''
        = Some (VInt 4)
   \<and> fst (update_ticket seed_heap [0, 1, 2, 3, 4] 1 ''priority'' (VStr ''4'')) 1 ''status''
        = Some (VStr ''new'')
   \<and> fst (update_ticket seed_heap [0, 1, 2, 3, 4] 1 ''priority'' (VStr ''4'')) 0 = seed_heap 0
   \<and> update_ticket seed_heap [0, 1, 2, 3, 4] 1 ''priority'' (VStr ''5'') =
        (seed_heap, Inl (ValueError ''Priority must be an integer between 1 and 4''))
   \<and> update_ticket seed_heap [0, 1, 2, 3, 4] 1 ''priority'' (VStr ''high'') =
        (seed_heap, Inl (ValueError ''Priority must be an integer between 1 and 4''))
   \<and> update_ticket seed_heap [0, 1, 2, 3, 4] 1 ''priority'' (VStr [CHR 0x1C, CHR ''4'']) =
        (seed_heap, Inl (ValueError ''Priority must be an integer between 1 and 4''))
   \<and> fst (update_ticket seed_heap [0, 1, 2, 3, 4] 1 ''priority'' (VStr [CHR 0xA0, CHR ''4'']))
        1 ''priority'' = Some (VInt 4)
   \<and> update_ticket seed_heap [0, 1, 2, 3, 4] 5 ''priority'' (VStr ''4'') =
        (seed_heap, Inl (IndexError ''Ticket index out of range''))"
proof -
  have s: "seed_heap 1 ''status'' = Some (VStr ''new'')" by (simp add: seed_heap_def)
  show ?thesis
    using update_ticket_priority [of seed_heap "[0, 1, 2, 3, 4]" 1 "VStr ''4''"]
      update_ticket_priority [of seed_heap "[0, 1, 2, 3, 4]" 1 "VStr ''5''"]
      update_ticket_priority [of seed_heap "[0, 1, 2, 3, 4]" 1 "VStr ''high''"]
      update_ticket_priority [of seed_heap "[0, 1, 2, 3, 4]" 1 "VStr [CHR 0x1C, CHR ''4'']"]
      update_ticket_priority [of seed_heap "[0, 1, 2, 3, 4]" 1 "VStr [CHR 0xA0, CHR ''4'']"]
      update_ticket_priority [of seed_heap "[0, 1, 2, 3, 4]" 5 "VStr ''4''"]
      s
    by (auto simp: py_int_examples py_int_separator prod_eq_iff)
qed

subsection \<open>filter_tickets\<close>

lemma comprehension_field:
  assumes "\<forall>a \<in> set tickets. h a k \<noteq> None"
  shows "comprehension
           (\<lambda>ticket. case getitem (h ticket) k of Inl e \<Rightarrow> Inl e | Inr x \<Rightarrow> Inr (x = v))
           tickets
         = Inr (filter (\<lambda>a. h a k = Some v) tickets)"
  using assms by (intro comprehension_filter) (auto simp: getitem_def)

lemma filter_tickets_field:
  assumes "ft \<in> {''type'', ''status''}" "\<forall>a \<in> set tickets. h a ft \<noteq> None"
  shows "filter_tickets h tickets ft v = (tickets, Inr (filter (\<lambda>a. h a ft = Some v) tickets))"
  using assms comprehension_field [where tickets = tickets and h = h and k = ft and v = v]
  by (auto simp: filter_tickets_def valid_filters_def)

lemma filter_tickets_priority_bad:
  assumes "py_int (VStr s) = Inl e"
  shows "filter_tickets h tickets ''priority'' (VStr s) =
           (tickets, Inl (ValueError ''Priority value must be a number between 1 and 4''))"
  using assms py_int_error [OF assms]
  by (auto simp: filter_tickets_def valid_filters_def)

lemma filter_tickets_priority_text:
  assumes "py_int (VStr s) = Inr n" "\<forall>a \<in> set tickets. h a ''priority'' \<noteq> None"
  shows "filter_tickets h tickets ''priority'' (VStr s) =
           (tickets, Inr (filter (\<lambda>a. h a ''priority'' = Some (VInt n)) tickets))"
  using assms
    comprehension_field [where tickets = tickets and h = h and k = "''priority''" and v = "VInt n"]
  by (simp add: filter_tickets_def valid_filters_def)

lemma py_int_seven: "py_int (VStr ''7'') = Inr 7"
  by code_simp

text \<open>
  C3. \<open>filter_tickets\<close> treats its value differently by filter. For \<open>type\<close> and
  \<open>status\<close>, on tickets that have the field, any value at all is compared for
  equality with the field, and a value that no ticket has gives the empty list, no
  exception. For \<open>priority\<close> with a text value, a text that \<open>int\<close> rejects raises the
  ValueError "Priority value must be a number between 1 and 4", whatever the tickets are;
  a text that \<open>int\<close> accepts is compared, as that integer, for equality with the
  priority of each ticket, with no check of its range: "7" gives the empty list on
  tickets whose priorities are from 1 to 4.
\<close>

theorem filter_tickets_asymmetry:
  "(ft \<in> {''type'', ''status''} \<and> (\<forall>a \<in> set tickets. h a ft \<noteq> None) \<longrightarrow>
      filter_tickets h tickets ft v =
        (tickets, Inr (filter (\<lambda>a. h a ft = Some v) tickets)))
   \<and> (ft \<in> {''type'', ''status''} \<and> (\<forall>a \<in> set tickets. h a ft \<noteq> None \<and> h a ft \<noteq> Some v) \<longrightarrow>
      filter_tickets h tickets ft v = (tickets, Inr []))
   \<and> ((\<exists>e. py_int (VStr s) = Inl e) \<longrightarrow>
      filter_tickets h tickets ''priority'' (VStr s) =
        (tickets, Inl (ValueError ''Priority value must be a number between 1 and 4'')))
   \<and> (py_int (VStr s) = Inr n \<and> (\<forall>a \<in> set tickets. h a ''priority'' \<noteq> None) \<longrightarrow>
      filter_tickets h tickets ''priority'' (VStr s) =
        (tickets, Inr (filter (\<lambda>a. h a ''priority'' = Some (VInt n)) tickets)))
   \<and> py_int (VStr ''7'') = Inr 7
   \<and> ((\<forall>a \<in> set tickets. \<exists>p. h a ''priority'' = Some (VInt p) \<and> 1 \<le> p \<and> p \<le> 4) \<longrightarrow>
      filter_tickets h tickets ''priority'' (VStr ''7'') = (tickets, Inr []))"
proof (intro conjI impI)
  assume "ft \<in> {''type'', ''status''} \<and> (\<forall>a \<in> set tickets. h a ft \<noteq> None)"
  then show "filter_tickets h tickets ft v =
        (tickets, Inr (filter (\<lambda>a. h a ft = Some v) tickets))"
    by (simp add: filter_tickets_field)
next
  assume a: "ft \<in> {''type'', ''status''} \<and> (\<forall>a \<in> set tickets. h a ft \<noteq> None \<and> h a ft \<noteq> Some v)"
  then have "filter (\<lambda>a. h a ft = Some v) tickets = []"
    by (simp add: filter_empty_conv)
  with a show "filter_tickets h tickets ft v = (tickets, Inr [])"
    by (simp add: filter_tickets_field)
next
  assume "\<exists>e. py_int (VStr s) = Inl e"
  then show "filter_tickets h tickets ''priority'' (VStr s) =
        (tickets, Inl (ValueError ''Priority value must be a number between 1 and 4''))"
    by (auto simp: filter_tickets_priority_bad)
next
  assume "py_int (VStr s) = Inr n \<and> (\<forall>a \<in> set tickets. h a ''priority'' \<noteq> None)"
  then show "filter_tickets h tickets ''priority'' (VStr s) =
        (tickets, Inr (filter (\<lambda>a. h a ''priority'' = Some (VInt n)) tickets))"
    by (simp add: filter_tickets_priority_text)
next
  show "py_int (VStr ''7'') = Inr 7" by (rule py_int_seven)
next
  assume a: "\<forall>a \<in> set tickets. \<exists>p. h a ''priority'' = Some (VInt p) \<and> 1 \<le> p \<and> p \<le> 4"
  then have present: "\<forall>a \<in> set tickets. h a ''priority'' \<noteq> None" by auto
  from a have "filter (\<lambda>a. h a ''priority'' = Some (VInt 7)) tickets = []"
    by (auto simp: filter_empty_conv)
  then show "filter_tickets h tickets ''priority'' (VStr ''7'') = (tickets, Inr [])"
    using filter_tickets_priority_text [where s = "''7''" and n = 7 and tickets = tickets and h = h]
      py_int_seven present
    by simp
qed

lemma py_int_two: "py_int (VStr ''2'') = Inr 2"
  by code_simp

lemma py_int_word: "py_int (VStr ''two'') = Inl (ValueError ''invalid literal for int() with base 10'')"
  by code_simp

lemma seed_fields:
  "\<forall>a \<in> set [0, 1, 2, 3, 4]. seed_heap a ''type'' \<noteq> None"
  "\<forall>a \<in> set [0, 1, 2, 3, 4]. seed_heap a ''type'' \<noteq> None \<and> seed_heap a ''type'' \<noteq> Some (VStr ''urgent'')"
  "\<forall>a \<in> set [0, 1, 2, 3, 4]. seed_heap a ''priority'' \<noteq> None"
  "\<forall>a \<in> set [0, 1, 2, 3, 4]. \<exists>p. seed_heap a ''priority'' = Some (VInt p) \<and> 1 \<le> p \<and> p \<le> 4"
  by (simp_all add: seed_heap_def)

theorem filter_tickets_asymmetry_witness:
  "filter_tickets seed_heap [0, 1, 2, 3, 4] ''type'' (VStr ''billing'') = ([0, 1, 2, 3, 4], Inr [0, 4])
   \<and> filter_tickets seed_heap [0, 1, 2, 3, 4] ''type'' (VStr ''urgent'') = ([0, 1, 2, 3, 4], Inr [])
   \<and> filter_tickets seed_heap [0, 1, 2, 3, 4] ''priority'' (VStr ''two'') =
        ([0, 1, 2, 3, 4], Inl (ValueError ''Priority value must be a number between 1 and 4''))
   \<and> filter_tickets seed_heap [0, 1, 2, 3, 4] ''priority'' (VStr ''2'') = ([0, 1, 2, 3, 4], Inr [0, 4])
   \<and> filter_tickets seed_heap [0, 1, 2, 3, 4] ''priority'' (VStr ''7'') = ([0, 1, 2, 3, 4], Inr [])
   \<and> filter_tickets seed_heap [0, 1, 2, 3, 4] ''priority'' (VStr [CHR 0x1C, CHR ''2'']) =
        ([0, 1, 2, 3, 4], Inl (ValueError ''Priority value must be a number between 1 and 4''))
   \<and> filter_tickets seed_heap [0, 1, 2, 3, 4] ''priority'' (VStr [CHR 0xA0, CHR ''2'']) =
        ([0, 1, 2, 3, 4], Inr [0, 4])"
proof -
  have f1: "filter (\<lambda>a. seed_heap a ''type'' = Some (VStr ''billing'')) [0, 1, 2, 3, 4] = [0, 4]"
    by (simp add: seed_heap_def)
  have f2: "filter (\<lambda>a. seed_heap a ''priority'' = Some (VInt 2)) [0, 1, 2, 3, 4] = [0, 4]"
    by (simp add: seed_heap_def)
  show ?thesis
    using filter_tickets_asymmetry
        [of "''type''" "[0, 1, 2, 3, 4]" seed_heap "VStr ''billing''" "''2''" 2]
      filter_tickets_asymmetry
        [of "''type''" "[0, 1, 2, 3, 4]" seed_heap "VStr ''urgent''" "''two''" 2]
      filter_tickets_asymmetry
        [of "''type''" "[0, 1, 2, 3, 4]" seed_heap "VStr ''billing''" "[CHR 0x1C, CHR ''2'']" 2]
      filter_tickets_asymmetry
        [of "''type''" "[0, 1, 2, 3, 4]" seed_heap "VStr ''billing''" "[CHR 0xA0, CHR ''2'']" 2]
      seed_fields f1 f2 py_int_two py_int_word py_int_separator
    by simp
qed

subsection \<open>sort_tickets\<close>

lemma mset_insert_by: "mset (insert_by k x ys) = add_mset x (mset ys)"
  by (induction ys) auto

lemma set_insert_by: "set (insert_by k x ys) = insert x (set ys)"
  by (induction ys) auto

lemma sorted_insert_by: "sorted (map k ys) \<Longrightarrow> sorted (map k (insert_by k x ys))"
  by (induction ys) (auto simp: set_insert_by)

lemma filter_insert_by:
  "sorted (map k ys) \<Longrightarrow>
     filter (\<lambda>y. k y = v) (insert_by k x ys) =
       filter (\<lambda>y. k y = v) ys @ (if k x = v then [x] else [])"
proof (induction ys)
  case Nil
  then show ?case by simp
next
  case (Cons y ys)
  show ?case
  proof (cases "k x < k y")
    case True
    with Cons.prems have "\<forall>z \<in> set (y # ys). k x < k z" by auto
    then have "k x = v \<Longrightarrow> filter (\<lambda>y. k y = v) (y # ys) = []"
      by (auto simp: filter_empty_conv)
    with True show ?thesis by auto
  next
    case False
    with Cons show ?thesis by auto
  qed
qed

lemma mset_sort_by_from: "mset (sort_by_from k acc xs) = mset acc + mset xs"
  by (induction xs arbitrary: acc) (auto simp: mset_insert_by)

lemma sorted_sort_by_from:
  "sorted (map k acc) \<Longrightarrow> sorted (map k (sort_by_from k acc xs))"
  by (induction xs arbitrary: acc) (auto simp: sorted_insert_by)

lemma filter_sort_by_from:
  "sorted (map k acc) \<Longrightarrow>
     filter (\<lambda>y. k y = v) (sort_by_from k acc xs) =
       filter (\<lambda>y. k y = v) acc @ filter (\<lambda>y. k y = v) xs"
  by (induction xs arbitrary: acc) (auto simp: sorted_insert_by filter_insert_by)

lemma sort_by_from_sort_key: "sort_by_from k [] xs = sort_key k xs"
proof (rule properties_for_sort_key [symmetric])
  show "mset (sort_by_from k [] xs) = mset xs" by (simp add: mset_sort_by_from)
  show "sorted (map k (sort_by_from k [] xs))" by (simp add: sorted_sort_by_from)
  fix a
  have "filter (\<lambda>y. k y = k a) (sort_by_from k [] xs) = filter (\<lambda>y. k y = k a) xs"
    by (simp add: filter_sort_by_from)
  then show "filter (\<lambda>x. k a = k x) (sort_by_from k [] xs) = filter (\<lambda>x. k a = k x) xs"
    by (simp add: eq_commute)
qed

lemma str_lt_less: "str_lt a b \<longleftrightarrow> a < b"
  by (induction a b rule: str_lt.induct) (auto simp: less_char_def)

lemma insert_sorted_pure:
  assumes "\<And>a b. py_lt (emb a) (emb b) = Inr (a < b)"
  shows "insert_sorted (emb (k x), x) (map (\<lambda>a. (emb (k a), a)) ys) =
           Inr (map (\<lambda>a. (emb (k a), a)) (insert_by k x ys))"
  by (induction ys) (auto simp: assms)

lemma sort_from_pure:
  assumes "\<And>a b. py_lt (emb a) (emb b) = Inr (a < b)"
  shows "sort_from (map (\<lambda>a. (emb (k a), a)) acc) (map (\<lambda>a. (emb (k a), a)) xs) =
           Inr (map (\<lambda>a. (emb (k a), a)) (sort_by_from k acc xs))"
proof (induction xs arbitrary: acc)
  case Nil
  then show ?case by simp
next
  case (Cons x xs)
  show ?case
    using Cons.IH [of "insert_by k x acc"]
    by (simp add: insert_sorted_pure [where emb = emb, OF assms])
qed

lemma key_list_pure:
  "(\<And>a. a \<in> set xs \<Longrightarrow> f a = Inr (emb (k a))) \<Longrightarrow>
     key_list f xs = Inr (map (\<lambda>a. (emb (k a), a)) xs)"
  by (induction xs) auto

lemma list_sort_pure:
  assumes "\<And>a b. py_lt (emb a) (emb b) = Inr (a < b)"
    and "\<And>a. a \<in> set xs \<Longrightarrow> f a = Inr (emb (k a))"
  shows "list_sort f xs = Inr (sort_by_from k [] xs)"
proof -
  have "key_list f xs = Inr (map (\<lambda>a. (emb (k a), a)) xs)"
    using assms(2) by (rule key_list_pure)
  moreover have "sort_from [] (map (\<lambda>a. (emb (k a), a)) xs) =
      Inr (map (\<lambda>a. (emb (k a), a)) (sort_by_from k [] xs))"
    using sort_from_pure [where emb = emb and k = k and acc = "[]" and xs = xs, OF assms(1)]
    by simp
  ultimately show ?thesis by (simp add: list_sort_def comp_def)
qed

lemma sort_tickets_text:
  assumes "key \<in> set valid_keys" "\<forall>a \<in> set tickets. h a key = Some (VStr (field a))"
  shows "sort_tickets h tickets key = (tickets, Inr (sort_by_from field [] tickets))"
proof -
  have "list_sort (\<lambda>ticket. getitem (h ticket) key) tickets = Inr (sort_by_from field [] tickets)"
    using assms(2)
    by (intro list_sort_pure [where emb = VStr]) (auto simp: str_lt_less getitem_def)
  with assms(1) show ?thesis by (simp add: sort_tickets_def)
qed

lemma sort_tickets_number:
  assumes "key \<in> set valid_keys" "\<forall>a \<in> set tickets. h a key = Some (VInt (prio a))"
  shows "sort_tickets h tickets key = (tickets, Inr (sort_by_from prio [] tickets))"
proof -
  have "list_sort (\<lambda>ticket. getitem (h ticket) key) tickets = Inr (sort_by_from prio [] tickets)"
    using assms(2)
    by (intro list_sort_pure [where emb = VInt]) (auto simp: getitem_def)
  with assms(1) show ?thesis by (simp add: sort_tickets_def)
qed

lemma sort_tickets_invalid:
  "key \<notin> set valid_keys \<Longrightarrow>
     sort_tickets h tickets key =
       (tickets, Inl (ValueError ''Invalid sort key. Must be one of: id, priority, status, type''))"
  by (simp add: sort_tickets_def valid_keys_def)

text \<open>
  C4. On tickets whose field \<open>key\<close> holds text (for \<open>id\<close>, \<open>status\<close>,
  \<open>type\<close>) or an integer (for \<open>priority\<close>), \<open>sort_tickets\<close> returns a list
  with the same tickets, ascending in that field (text in lexicographic order by
  character code, which is the order of \<open>string\<close> here; integers in numeric order), in
  which the tickets of any one key value stand in the order they had in \<open>tickets\<close>; it
  is the list the library's stable \<open>sort_key\<close> gives. \<open>tickets\<close> itself holds
  afterwards what it held before. For any other key the call raises a ValueError that
  lists the four keys. \<open>field\<close> and \<open>prio\<close> name the value of the field in each
  ticket.
\<close>

theorem sort_tickets_stable:
  "(key \<notin> {''id'', ''priority'', ''status'', ''type''} \<longrightarrow>
      sort_tickets h tickets key =
        (tickets, Inl (ValueError ''Invalid sort key. Must be one of: id, priority, status, type'')))
   \<and> (key \<in> {''id'', ''status'', ''type''}
        \<and> (\<forall>a \<in> set tickets. h a key = Some (VStr (field a))) \<longrightarrow>
      (\<exists>r. sort_tickets h tickets key = (tickets, Inr r)
           \<and> mset r = mset tickets
           \<and> sorted (map field r)
           \<and> (\<forall>v. filter (\<lambda>a. field a = v) r = filter (\<lambda>a. field a = v) tickets)
           \<and> r = sort_key field tickets))
   \<and> ((\<forall>a \<in> set tickets. h a ''priority'' = Some (VInt (prio a))) \<longrightarrow>
      (\<exists>r. sort_tickets h tickets ''priority'' = (tickets, Inr r)
           \<and> mset r = mset tickets
           \<and> sorted (map prio r)
           \<and> (\<forall>v. filter (\<lambda>a. prio a = v) r = filter (\<lambda>a. prio a = v) tickets)
           \<and> r = sort_key prio tickets))"
proof (intro conjI impI)
  assume "key \<notin> {''id'', ''priority'', ''status'', ''type''}"
  then show "sort_tickets h tickets key =
        (tickets, Inl (ValueError ''Invalid sort key. Must be one of: id, priority, status, type''))"
    by (intro sort_tickets_invalid) (simp add: valid_keys_def)
next
  assume a: "key \<in> {''id'', ''status'', ''type''}
        \<and> (\<forall>a \<in> set tickets. h a key = Some (VStr (field a)))"
  then have "key \<in> set valid_keys" by (auto simp: valid_keys_def)
  with a have "sort_tickets h tickets key = (tickets, Inr (sort_by_from field [] tickets))"
    by (simp add: sort_tickets_text)
  then show "\<exists>r. sort_tickets h tickets key = (tickets, Inr r)
           \<and> mset r = mset tickets
           \<and> sorted (map field r)
           \<and> (\<forall>v. filter (\<lambda>a. field a = v) r = filter (\<lambda>a. field a = v) tickets)
           \<and> r = sort_key field tickets"
    using sort_by_from_sort_key [of field tickets] filter_sort_by_from [of field "[]" _ tickets]
    by (intro exI [of _ "sort_by_from field [] tickets"])
      (simp add: mset_sort_by_from sorted_sort_by_from del: sort_by_from.simps)
next
  assume a: "\<forall>a \<in> set tickets. h a ''priority'' = Some (VInt (prio a))"
  have "''priority'' \<in> set valid_keys" by (simp add: valid_keys_def)
  with a have "sort_tickets h tickets ''priority'' = (tickets, Inr (sort_by_from prio [] tickets))"
    by (simp add: sort_tickets_number)
  then show "\<exists>r. sort_tickets h tickets ''priority'' = (tickets, Inr r)
           \<and> mset r = mset tickets
           \<and> sorted (map prio r)
           \<and> (\<forall>v. filter (\<lambda>a. prio a = v) r = filter (\<lambda>a. prio a = v) tickets)
           \<and> r = sort_key prio tickets"
    using sort_by_from_sort_key [of prio tickets] filter_sort_by_from [of prio "[]" _ tickets]
    by (intro exI [of _ "sort_by_from prio [] tickets"])
      (simp add: mset_sort_by_from sorted_sort_by_from del: sort_by_from.simps)
qed

lemma seed_priority_keys:
  "\<forall>a \<in> set [0, 1, 2, 3, 4]. seed_heap a ''priority'' = Some (VInt ([2, 3, 1, 4, 2] ! a))"
  by (simp add: seed_heap_def)

lemma seed_type_keys:
  "\<forall>a \<in> set [0, 1, 2, 3, 4, 5, 6].
     seed_heap a ''type'' =
       Some (VStr ([''billing'', ''account'', ''technical'', ''feature'', ''billing'',
                    ''technical'', ''billing''] ! a))"
  by (simp add: seed_heap_def)

lemma seed_priority_sorted:
  "sort_key (\<lambda>a. [2, 3, 1, 4, 2 :: int] ! a) [0, 1, 2, 3, 4 :: nat] = [2, 0, 4, 1, 3]"
  by code_simp

lemma seed_type_sorted:
  "sort_key (\<lambda>a. [''billing'', ''account'', ''technical'', ''feature'', ''billing'',
                   ''technical'', ''billing''] ! a) [0, 1, 2, 3, 4, 5, 6 :: nat]
     = [1, 0, 4, 6, 3, 2, 5]"
  by code_simp

theorem sort_tickets_stable_witness:
  "sort_tickets seed_heap [0, 1, 2, 3, 4] ''priority'' = ([0, 1, 2, 3, 4], Inr [2, 0, 4, 1, 3])
   \<and> sort_tickets seed_heap [0, 1, 2, 3, 4, 5, 6] ''type'' =
        ([0, 1, 2, 3, 4, 5, 6], Inr [1, 0, 4, 6, 3, 2, 5])
   \<and> sort_tickets seed_heap [0, 1, 2, 3, 4] ''title'' =
        ([0, 1, 2, 3, 4],
         Inl (ValueError ''Invalid sort key. Must be one of: id, priority, status, type''))"
proof -
  have "sort_tickets seed_heap [0, 1, 2, 3, 4] ''priority'' = ([0, 1, 2, 3, 4], Inr [2, 0, 4, 1, 3])"
    using sort_tickets_stable
        [of "''priority''" seed_heap "[0, 1, 2, 3, 4]" "\<lambda>a. []" "\<lambda>a. [2, 3, 1, 4, 2] ! a"]
      seed_priority_keys seed_priority_sorted
    by auto
  moreover have "sort_tickets seed_heap [0, 1, 2, 3, 4, 5, 6] ''type'' =
        ([0, 1, 2, 3, 4, 5, 6], Inr [1, 0, 4, 6, 3, 2, 5])"
    using sort_tickets_stable
        [of "''type''" seed_heap "[0, 1, 2, 3, 4, 5, 6]"
            "\<lambda>a. [''billing'', ''account'', ''technical'', ''feature'', ''billing'',
                   ''technical'', ''billing''] ! a" "\<lambda>a. 0"]
      seed_type_keys seed_type_sorted
    by auto
  moreover have "sort_tickets seed_heap [0, 1, 2, 3, 4] ''title'' =
        ([0, 1, 2, 3, 4],
         Inl (ValueError ''Invalid sort key. Must be one of: id, priority, status, type''))"
    using sort_tickets_stable [of "''title''" seed_heap "[0, 1, 2, 3, 4]" "\<lambda>a. []" "\<lambda>a. 0"]
    by simp
  ultimately show ?thesis by simp
qed

end
